theory Spec2Isabelle
  imports Main "HOL-Library.Word" "HOL-Library.Sublist" "HOL-Library.Char_ord"
    "HOL-Library.List_Lexorder" "HOL-Library.Multiset"
begin

unbundle bit_operations_syntax

section \<open>Bytes and strings\<close>

text \<open>
  A Go \<^verbatim>\<open>[]byte\<close> is a list of 8-bit words; a Go \<^verbatim>\<open>string\<close> is a
  list of 8-bit characters. The conversions \<^verbatim>\<open>[]byte(s)\<close> and
  \<^verbatim>\<open>string(b)\<close> copy the bytes unchanged.
\<close>

type_synonym byte = "8 word"
type_synonym bytes = "byte list"
type_synonym uint32 = "32 word"

definition bytes_of_string :: "string \<Rightarrow> bytes" where
  "bytes_of_string s = map of_char s"

definition string_of_bytes :: "bytes \<Rightarrow> string" where
  "string_of_bytes b = map (\<lambda>w. char_of (unat w)) b"

section \<open>PKCS\#7 padding (pkcs7Pad, pkcs7Unpad)\<close>

definition BlockSize :: nat where
  "BlockSize = 16"

text \<open>
  \<^verbatim>\<open>padding := blockSize - len(data)%blockSize\<close>; the pad bytes all hold
  \<^verbatim>\<open>byte(padding)\<close>.
\<close>

definition pkcs7Pad :: "bytes \<Rightarrow> nat \<Rightarrow> bytes" where
  "pkcs7Pad data blockSize =
     (let padding = blockSize - length data mod blockSize
      in data @ replicate padding (of_nat padding))"

datatype unpad_error =
    EmptyData
  | InvalidPaddingValue nat
  | PaddingExceeds nat nat
  | InvalidPaddingByte nat

text \<open>
  The loop \<^verbatim>\<open>for i := len(data) - padding; i < len(data); i++\<close> of pkcs7Unpad:
  the position of the first byte that differs from \<^verbatim>\<open>byte(padding)\<close>, if any.
\<close>

function checkPadding :: "bytes \<Rightarrow> nat \<Rightarrow> nat \<Rightarrow> nat option" where
  "checkPadding data padding i =
     (if i < length data
      then (if data ! i \<noteq> of_nat padding then Some i
            else checkPadding data padding (Suc i))
      else None)"
  by pat_completeness auto
termination
  by (relation "measure (\<lambda>(data, padding, i). length data - i)") auto

declare checkPadding.simps [simp del]

definition pkcs7Unpad :: "bytes \<Rightarrow> unpad_error + bytes" where
  "pkcs7Unpad data =
     (if length data = 0 then Inl EmptyData
      else let padding = unat (data ! (length data - 1))
           in if padding = 0 \<or> padding > BlockSize then Inl (InvalidPaddingValue padding)
              else if padding > length data then Inl (PaddingExceeds padding (length data))
              else (case checkPadding data padding (length data - padding) of
                      Some i \<Rightarrow> Inl (InvalidPaddingByte i)
                    | None \<Rightarrow> Inr (take (length data - padding) data)))"



section \<open>Outcomes of a call\<close>

text \<open>
  A Go call either returns a value, returns an error, or panics at run time
  (a slice expression out of range, a library precondition violated).
\<close>

datatype ('e, 'a) result = Ok 'a | Err 'e | Panic

text \<open>
  The slice expression \<^verbatim>\<open>s[lo:hi]\<close>. Go panics unless \<open>lo \<le> hi \<le> cap(s)\<close>;
  at both uses in Decrypt the guard before them bounds \<open>hi\<close> by \<open>len(s)\<close>
  (lemma \<open>guard_bounds_high\<close> below), so the bound is written with the length.
\<close>

definition slice :: "'a list \<Rightarrow> nat \<Rightarrow> nat \<Rightarrow> 'a list option" where
  "slice s lo hi = (if lo \<le> hi \<and> hi \<le> length s then Some (take (hi - lo) (drop lo s)) else None)"

section \<open>The standard library the code calls\<close>

text \<open>
  The repository calls \<^verbatim>\<open>encoding/base64\<close>, \<^verbatim>\<open>crypto/aes\<close>,
  \<^verbatim>\<open>crypto/sha1\<close> and \<^verbatim>\<open>encoding/xml\<close>. They are not code of the
  repository; the model takes them as the fields of one record, and every definition
  below that calls the library takes that record as its first argument.
  \<^item> \<open>base64_DecodeString\<close>: \<^verbatim>\<open>base64.StdEncoding.DecodeString\<close>; \<open>Inl n\<close>
    is \<^verbatim>\<open>CorruptInputError(n)\<close>.
  \<^item> \<open>aes_Encrypt key\<close>, \<open>aes_Decrypt key\<close>: the block operations of the
    \<^verbatim>\<open>cipher.Block\<close> made by \<^verbatim>\<open>aes.NewCipher(key)\<close>.
  \<^item> \<open>sha1_Sum\<close>: \<^verbatim>\<open>sha1.Sum\<close>, the 20 bytes of the digest.
\<close>

record stdlib =
  base64_DecodeString :: "string \<Rightarrow> nat + bytes"
  base64_EncodeToString :: "bytes \<Rightarrow> string"
  aes_Encrypt :: "bytes \<Rightarrow> bytes \<Rightarrow> bytes"
  aes_Decrypt :: "bytes \<Rightarrow> bytes \<Rightarrow> bytes"
  sha1_Sum :: "bytes \<Rightarrow> bytes"

text \<open>\<^verbatim>\<open>aes.NewCipher\<close> accepts keys of 16, 24 or 32 bytes; otherwise KeySizeError.\<close>

definition aes_NewCipher :: "bytes \<Rightarrow> nat + bytes" where
  "aes_NewCipher key =
     (if length key = 16 \<or> length key = 24 \<or> length key = 32 then Inr key
      else Inl (length key))"

subsection \<open>CBC mode (crypto/cipher) over the block operations\<close>

definition xorBytes :: "bytes \<Rightarrow> bytes \<Rightarrow> bytes" where
  "xorBytes a b = map2 (XOR) a b"

function cbcEncryptBlocks :: "(bytes \<Rightarrow> bytes) \<Rightarrow> bytes \<Rightarrow> bytes \<Rightarrow> bytes" where
  "cbcEncryptBlocks E iv src =
     (if length src < BlockSize then []
      else (let c = E (xorBytes (take BlockSize src) iv)
            in c @ cbcEncryptBlocks E c (drop BlockSize src)))"
  by pat_completeness auto
termination
  by (relation "measure (\<lambda>(E, iv, src). length src)") (auto simp: BlockSize_def)

function cbcDecryptBlocks :: "(bytes \<Rightarrow> bytes) \<Rightarrow> bytes \<Rightarrow> bytes \<Rightarrow> bytes" where
  "cbcDecryptBlocks D iv src =
     (if length src < BlockSize then []
      else xorBytes (D (take BlockSize src)) iv
           @ cbcDecryptBlocks D (take BlockSize src) (drop BlockSize src))"
  by pat_completeness auto
termination
  by (relation "measure (\<lambda>(D, iv, src). length src)") (auto simp: BlockSize_def)

declare cbcEncryptBlocks.simps [simp del] cbcDecryptBlocks.simps [simp del]

text \<open>
  \<^verbatim>\<open>cipher.NewCBCEncrypter(block, iv)\<close> and \<^verbatim>\<open>NewCBCDecrypter\<close> panic when
  the IV is not one block long; \<^verbatim>\<open>CryptBlocks(dst, src)\<close> panics when the input
  is not a whole number of blocks. \<open>None\<close> is the panic.
\<close>

definition CBCEncrypter_CryptBlocks :: "'a stdlib_scheme \<Rightarrow> bytes \<Rightarrow> bytes \<Rightarrow> bytes \<Rightarrow> bytes option" where
  "CBCEncrypter_CryptBlocks lib block iv src =
     (if length iv \<noteq> BlockSize \<or> length src mod BlockSize \<noteq> 0 then None
      else Some (cbcEncryptBlocks (aes_Encrypt lib block) iv src))"

definition CBCDecrypter_CryptBlocks :: "'a stdlib_scheme \<Rightarrow> bytes \<Rightarrow> bytes \<Rightarrow> bytes \<Rightarrow> bytes option" where
  "CBCDecrypter_CryptBlocks lib block iv src =
     (if length iv \<noteq> BlockSize \<or> length src mod BlockSize \<noteq> 0 then None
      else Some (cbcDecryptBlocks (aes_Decrypt lib block) iv src))"

subsection \<open>encoding/binary, big endian\<close>

definition BigEndian_Uint32 :: "bytes \<Rightarrow> uint32" where
  "BigEndian_Uint32 b =
     ucast (b ! 3) OR push_bit 8 (ucast (b ! 2)) OR push_bit 16 (ucast (b ! 1))
       OR push_bit 24 (ucast (b ! 0))"

definition BigEndian_PutUint32 :: "uint32 \<Rightarrow> bytes" where
  "BigEndian_PutUint32 v =
     [ucast (drop_bit 24 v), ucast (drop_bit 16 v), ucast (drop_bit 8 v), ucast v]"

section \<open>cryptoImpl: Decrypt and Encrypt\<close>

record cryptoImpl =
  token :: string
  aesKey :: bytes
  corpID :: string

datatype decrypt_error =
    Base64Decode nat
  | CiphertextLength nat
  | NewAESCipher nat
  | Pkcs7Unpad unpad_error
  | PlaintextTooShort nat
  | InvalidMsgLength uint32 nat
  | CorpIDMismatch string string

text \<open>
  Decrypt, stage by stage as in the source. \<^verbatim>\<open>msgLen\<close> is a \<^verbatim>\<open>uint32\<close>, and
  so are \<^verbatim>\<open>uint32(len(plaintext))\<close> and \<^verbatim>\<open>20+msgLen\<close>: the comparison and the
  two slice bounds are computed in 32-bit arithmetic, which wraps. The slice bounds are
  then used as (64-bit) indices.
\<close>

definition Decrypt :: "'a stdlib_scheme \<Rightarrow> cryptoImpl \<Rightarrow> string \<Rightarrow> (decrypt_error, bytes) result" where
  "Decrypt lib c encrypted =
     (case base64_DecodeString lib encrypted of
        Inl n \<Rightarrow> Err (Base64Decode n)
      | Inr ciphertext \<Rightarrow>
          if length ciphertext = 0 \<or> length ciphertext mod BlockSize \<noteq> 0
          then Err (CiphertextLength (length ciphertext))
          else (case aes_NewCipher (aesKey c) of
             Inl n \<Rightarrow> Err (NewAESCipher n)
           | Inr block \<Rightarrow>
              (case CBCDecrypter_CryptBlocks lib block (take BlockSize (aesKey c)) ciphertext of
                 None \<Rightarrow> Panic
               | Some padded \<Rightarrow>
                  (case pkcs7Unpad padded of
                     Inl e \<Rightarrow> Err (Pkcs7Unpad e)
                   | Inr plaintext \<Rightarrow>
                      if length plaintext < 20 then Err (PlaintextTooShort (length plaintext))
                      else (let msgLen = BigEndian_Uint32 (take 4 (drop 16 plaintext))
                            in if (of_nat (length plaintext) :: uint32) < 20 + msgLen
                               then Err (InvalidMsgLength msgLen (length plaintext))
                               else (case slice plaintext 20 (unat (20 + msgLen)) of
                                  None \<Rightarrow> Panic
                                | Some msg \<Rightarrow>
                                   (case slice plaintext (unat (20 + msgLen)) (length plaintext) of
                                      None \<Rightarrow> Panic
                                    | Some rest \<Rightarrow>
                                       (let corpID' = string_of_bytes rest
                                        in if corpID' \<noteq> corpID c
                                           then Err (CorpIDMismatch corpID' (corpID c))
                                           else Ok msg))))))))"

datatype encrypt_error = GenerateRandomBytes | EncNewAESCipher nat

text \<open>
  Encrypt. \<open>randomBytes\<close> is what \<^verbatim>\<open>io.ReadFull(rand.Reader, randomBytes)\<close>
  left in the 16-byte buffer, \<open>None\<close> when the read failed.
\<close>

definition Encrypt :: "'a stdlib_scheme \<Rightarrow> cryptoImpl \<Rightarrow> bytes option \<Rightarrow> bytes \<Rightarrow> (encrypt_error, string) result" where
  "Encrypt lib c randomBytes plaintext =
     (case randomBytes of
        None \<Rightarrow> Err GenerateRandomBytes
      | Some rnd \<Rightarrow>
         (let msgLen = BigEndian_PutUint32 (of_nat (length plaintext));
              buf = rnd @ msgLen @ plaintext @ bytes_of_string (corpID c);
              padded = pkcs7Pad buf BlockSize
          in case aes_NewCipher (aesKey c) of
               Inl n \<Rightarrow> Err (EncNewAESCipher n)
             | Inr block \<Rightarrow>
                (case CBCEncrypter_CryptBlocks lib block (take BlockSize (aesKey c)) padded of
                   None \<Rightarrow> Panic
                 | Some ciphertext \<Rightarrow> Ok (base64_EncodeToString lib ciphertext))))"

subsection \<open>What the theorems assume of the library\<close>



subsection \<open>Auxiliary: the last stages of Decrypt, and Decrypt after Encrypt\<close>

text \<open>
  \<open>parsePlaintext\<close> repeats the part of Decrypt that follows the removal of the
  padding (source steps 5 and 6), as a function of the unpadded plaintext; lemma
  \<open>Decrypt_stages\<close> states that Decrypt is this function after the decoding, the CBC
  decryption and the unpadding. \<open>DecryptEncrypt\<close> decrypts what Encrypt returned.
\<close>

definition parsePlaintext :: "cryptoImpl \<Rightarrow> bytes \<Rightarrow> (decrypt_error, bytes) result" where
  "parsePlaintext c plaintext =
     (if length plaintext < 20 then Err (PlaintextTooShort (length plaintext))
      else (let msgLen = BigEndian_Uint32 (take 4 (drop 16 plaintext))
            in if (of_nat (length plaintext) :: uint32) < 20 + msgLen
               then Err (InvalidMsgLength msgLen (length plaintext))
               else (case slice plaintext 20 (unat (20 + msgLen)) of
                  None \<Rightarrow> Panic
                | Some msg \<Rightarrow>
                   (case slice plaintext (unat (20 + msgLen)) (length plaintext) of
                      None \<Rightarrow> Panic
                    | Some rest \<Rightarrow>
                       (let corpID' = string_of_bytes rest
                        in if corpID' \<noteq> corpID c
                           then Err (CorpIDMismatch corpID' (corpID c))
                           else Ok msg)))))"

text \<open>
  \<open>decryptedPlaintext\<close> is the plaintext that Decrypt goes on to parse: the result of
  the decoding, the length check, the CBC decryption and the removal of the padding,
  when all of them succeed.
\<close>

definition decryptedPlaintext :: "'a stdlib_scheme \<Rightarrow> cryptoImpl \<Rightarrow> string \<Rightarrow> bytes option" where
  "decryptedPlaintext lib c encrypted =
     (case base64_DecodeString lib encrypted of
        Inl n \<Rightarrow> None
      | Inr ciphertext \<Rightarrow>
          if length ciphertext = 0 \<or> length ciphertext mod BlockSize \<noteq> 0 then None
          else (case aes_NewCipher (aesKey c) of
             Inl n \<Rightarrow> None
           | Inr block \<Rightarrow>
              (case CBCDecrypter_CryptBlocks lib block (take BlockSize (aesKey c)) ciphertext of
                 None \<Rightarrow> None
               | Some padded \<Rightarrow>
                  (case pkcs7Unpad padded of Inl e \<Rightarrow> None | Inr plaintext \<Rightarrow> Some plaintext))))"



section \<open>cryptoImpl: VerifySignature\<close>

text \<open>
  Go compares strings byte by byte: the first differing byte decides, and a proper prefix
  is smaller.
\<close>

fun string_less :: "string \<Rightarrow> string \<Rightarrow> bool" where
  "string_less [] [] = False"
| "string_less [] (y # ys) = True"
| "string_less (x # xs) [] = False"
| "string_less (x # xs) (y # ys) =
     (if x = y then string_less xs ys else (of_char x :: nat) < of_char y)"

text \<open>
  \<^verbatim>\<open>sort.Strings\<close> on a slice of fewer than 12 elements is an insertion sort:
  each element in turn moves left while it is smaller than its left neighbour. The
  sorted prefix is kept reversed, so that the left neighbour is the head.
\<close>

fun siftLeft :: "string \<Rightarrow> string list \<Rightarrow> string list" where
  "siftLeft x [] = [x]"
| "siftLeft x (y # ys) = (if string_less x y then y # siftLeft x ys else x # y # ys)"

fun insertionSort :: "string list \<Rightarrow> string list \<Rightarrow> string list" where
  "insertionSort acc [] = rev acc"
| "insertionSort acc (x # xs) = insertionSort (siftLeft x acc) xs"

definition sort_Strings :: "string list \<Rightarrow> string list" where
  "sort_Strings params = insertionSort [] params"

fun strings_Join :: "string list \<Rightarrow> string \<Rightarrow> string" where
  "strings_Join [] sep = []"
| "strings_Join [x] sep = x"
| "strings_Join (x # y # ys) sep = x @ sep @ strings_Join (y # ys) sep"

text \<open>
  \<^verbatim>\<open>fmt.Sprintf("%x", hash)\<close> on a byte array: for each byte, the digit of its high
  four bits and the digit of its low four bits, from \<^verbatim>\<open>"0123456789abcdefx"\<close>.
\<close>

definition ldigits :: string where
  "ldigits = ''0123456789abcdefx''"

definition Sprintf_x :: "bytes \<Rightarrow> string" where
  "Sprintf_x hash =
     concat (map (\<lambda>c. [ldigits ! unat (drop_bit 4 c), ldigits ! unat (c AND 0xF)]) hash)"

definition VerifySignature :: "'a stdlib_scheme \<Rightarrow> cryptoImpl \<Rightarrow> string \<Rightarrow> string \<Rightarrow> string \<Rightarrow> string \<Rightarrow> bool" where
  "VerifySignature lib c signature timestamp nonce msgEncrypt =
     (let params = sort_Strings [token c, timestamp, nonce, msgEncrypt];
          raw = strings_Join params [];
          hash = sha1_Sum lib (bytes_of_string raw);
          computed = Sprintf_x hash
      in computed = signature)"

subsection \<open>The reference algorithm, in the specification's words\<close>






section \<open>Error values and their messages\<close>

text \<open>\<^verbatim>\<open>%d\<close>: the decimal digits of a non-negative number.\<close>

function Itoa :: "nat \<Rightarrow> string" where
  "Itoa n = (if n < 10 then [char_of (48 + n)] else Itoa (n div 10) @ [char_of (48 + n mod 10)])"
  by pat_completeness auto
termination
  by (relation "measure id") auto

declare Itoa.simps [simp del]

fun unpad_error_Error :: "unpad_error \<Rightarrow> string" where
  "unpad_error_Error EmptyData = ''empty data''"
| "unpad_error_Error (InvalidPaddingValue p) = ''invalid padding value: '' @ Itoa p"
| "unpad_error_Error (PaddingExceeds p n) =
     ''padding '' @ Itoa p @ '' exceeds data length '' @ Itoa n"
| "unpad_error_Error (InvalidPaddingByte i) = ''invalid padding byte at position '' @ Itoa i"

text \<open>
  The messages of the errors Decrypt returns; \<^verbatim>\<open>%w\<close> inserts the message of the
  wrapped error (\<^verbatim>\<open>base64.CorruptInputError\<close>, \<^verbatim>\<open>aes.KeySizeError\<close>), and
  \<^verbatim>\<open>%s\<close> the string as it is.
\<close>

fun decrypt_error_Error :: "decrypt_error \<Rightarrow> string" where
  "decrypt_error_Error (Base64Decode n) =
     ''base64 decode: '' @ ''illegal base64 data at input byte '' @ Itoa n"
| "decrypt_error_Error (CiphertextLength n) =
     ''ciphertext length '' @ Itoa n @ '' is not a multiple of block size '' @ Itoa BlockSize"
| "decrypt_error_Error (NewAESCipher n) =
     ''new aes cipher: '' @ ''crypto/aes: invalid key size '' @ Itoa n"
| "decrypt_error_Error (Pkcs7Unpad e) = ''pkcs7 unpad: '' @ unpad_error_Error e"
| "decrypt_error_Error (PlaintextTooShort n) = ''plaintext too short: '' @ Itoa n @ '' bytes''"
| "decrypt_error_Error (InvalidMsgLength msgLen n) =
     ''invalid msg length: '' @ Itoa (unat msgLen) @ '', plaintext length: '' @ Itoa n"
| "decrypt_error_Error (CorpIDMismatch got want) =
     ''corp_id mismatch: got '' @ got @ '', want '' @ want"

text \<open>
  The errors the service returns: the sentinel \<^verbatim>\<open>ErrInvalidSignature\<close>, and the
  errors made by \<^verbatim>\<open>fmt.Errorf\<close> around an XML error (kept as its message) or around
  an error of Decrypt.
\<close>

datatype service_error =
    ErrInvalidSignature
  | UnmarshalEncryptedBody string
  | DecryptEchostr decrypt_error
  | DecryptMessage decrypt_error
  | UnmarshalMessage string

fun service_error_Error :: "service_error \<Rightarrow> string" where
  "service_error_Error ErrInvalidSignature = ''invalid signature''"
| "service_error_Error (UnmarshalEncryptedBody m) = ''unmarshal encrypted body: '' @ m"
| "service_error_Error (DecryptEchostr e) = ''decrypt echostr: '' @ decrypt_error_Error e"
| "service_error_Error (DecryptMessage e) = ''decrypt message: '' @ decrypt_error_Error e"
| "service_error_Error (UnmarshalMessage m) = ''unmarshal message: '' @ m"

text \<open>
  \<^verbatim>\<open>errors.Is(err, ErrInvalidSignature)\<close>: none of the wrapped errors has the
  sentinel in its chain.
\<close>

definition errors_Is_ErrInvalidSignature :: "service_error \<Rightarrow> bool" where
  "errors_Is_ErrInvalidSignature err \<longleftrightarrow> err = ErrInvalidSignature"

fun strings_HasPrefix :: "string \<Rightarrow> string \<Rightarrow> bool" where
  "strings_HasPrefix s [] = True"
| "strings_HasPrefix [] (p # ps) = False"
| "strings_HasPrefix (x # xs) (p # ps) = (x = p \<and> strings_HasPrefix xs ps)"

fun strings_Contains :: "string \<Rightarrow> string \<Rightarrow> bool" where
  "strings_Contains [] substr = (substr = [])"
| "strings_Contains (x # xs) substr =
     (strings_HasPrefix (x # xs) substr \<or> strings_Contains xs substr)"

section \<open>The service (serviceImpl)\<close>

record CallbackQuery =
  MsgSignature :: string
  Timestamp :: string
  Nonce :: string
  Echostr :: string

record EncryptedBody =
  body_ToUserName :: string
  body_AgentID :: string
  body_Encrypt :: string

record Message =
  ToUserName :: string
  FromUserName :: string
  CreateTime :: int
  MsgType :: string
  Content :: string
  MsgID :: string
  AgentID :: int

definition MsgTypeText :: string where
  "MsgTypeText = ''text''"

record ChatRequest =
  UserID :: string
  req_Content :: string
  Source :: string
  GroupID :: string

text \<open>
  \<^verbatim>\<open>xml.Unmarshal\<close> into the two structs is the library's; \<open>Inl m\<close> is an error
  with message \<open>m\<close>.
\<close>

record xml_stdlib = stdlib +
  xml_Unmarshal_EncryptedBody :: "bytes \<Rightarrow> string + EncryptedBody"
  xml_Unmarshal_Message :: "bytes \<Rightarrow> string + Message"

text \<open>
  The service holds the cipher and the AI collaborator (\<^verbatim>\<open>ai.Service\<close>, an
  interface: \<open>Inl m\<close> is an error with message \<open>m\<close>, \<open>Inr r\<close> the reply).
\<close>

record serviceImpl =
  crypto :: cryptoImpl
  aiSvc :: "ChatRequest \<Rightarrow> string + string"

text \<open>
  What a request does besides returning: the calls on the cipher and on the AI
  collaborator, the log records, and the goroutine it starts. Every function of the
  service and of the handler returns the list of these, in order, with its result.
\<close>

datatype event =
    CallVerifySignature string string string string
  | CallDecrypt string
  | CallSendMessage ChatRequest
  | LogWarn string "(string \<times> string) list"
  | LogError string "(string \<times> string) list"
  | LogInfo string "(string \<times> string) list"
  | GoRoutine "event list"

text \<open>The requests handed to the AI collaborator, in the handler or in a goroutine.\<close>

fun sent_requests :: "event \<Rightarrow> ChatRequest list" where
  "sent_requests (CallSendMessage req) = [req]"
| "sent_requests (GoRoutine evs) = concat (map sent_requests evs)"
| "sent_requests (CallVerifySignature a b c d) = []"
| "sent_requests (CallDecrypt e) = []"
| "sent_requests (LogWarn m kv) = []"
| "sent_requests (LogError m kv) = []"
| "sent_requests (LogInfo m kv) = []"

definition forwarded :: "event list \<Rightarrow> ChatRequest list" where
  "forwarded evs = concat (map sent_requests evs)"

definition containsMention :: "string \<Rightarrow> bool" where
  "containsMention content = strings_Contains content ''@''"

definition forwardToAI :: "serviceImpl \<Rightarrow> Message \<Rightarrow> event list" where
  "forwardToAI s msg =
     (let req = \<lparr>UserID = FromUserName msg, req_Content = Content msg,
                 Source = ''wework'', GroupID = []\<rparr>
      in case aiSvc s req of
           Inl err \<Rightarrow>
             [CallSendMessage req,
              LogError ''failed to forward message to AI''
                [(''user_id'', FromUserName msg), (''error'', err)]]
         | Inr reply \<Rightarrow>
             [CallSendMessage req,
              LogInfo ''message forwarded to AI''
                [(''msg_id'', MsgID msg), (''from_user'', FromUserName msg)]])"

definition VerifyURL :: "'a stdlib_scheme \<Rightarrow> serviceImpl \<Rightarrow> CallbackQuery \<Rightarrow> event list \<times> (service_error, string) result" where
  "VerifyURL lib s q =
     (let verify = [CallVerifySignature (MsgSignature q) (Timestamp q) (Nonce q) (Echostr q)]
      in if \<not> VerifySignature lib (crypto s) (MsgSignature q) (Timestamp q) (Nonce q) (Echostr q)
         then (verify, Err ErrInvalidSignature)
         else (case Decrypt lib (crypto s) (Echostr q) of
                 Err e \<Rightarrow> (verify @ [CallDecrypt (Echostr q)], Err (DecryptEchostr e))
               | Panic \<Rightarrow> (verify @ [CallDecrypt (Echostr q)], Panic)
               | Ok plaintext \<Rightarrow>
                   (verify @ [CallDecrypt (Echostr q)], Ok (string_of_bytes plaintext))))"

definition HandleCallback :: "'a xml_stdlib_scheme \<Rightarrow> serviceImpl \<Rightarrow> CallbackQuery \<Rightarrow> bytes \<Rightarrow> event list \<times> (service_error, unit) result" where
  "HandleCallback lib s q body =
     (case xml_Unmarshal_EncryptedBody lib body of
        Inl m \<Rightarrow> ([], Err (UnmarshalEncryptedBody m))
      | Inr encBody \<Rightarrow>
         (let verify = [CallVerifySignature (MsgSignature q) (Timestamp q) (Nonce q)
                          (body_Encrypt encBody)]
          in if \<not> VerifySignature lib (crypto s) (MsgSignature q) (Timestamp q) (Nonce q)
                     (body_Encrypt encBody)
             then (verify @ [LogWarn ''signature verification failed''
                               [(''timestamp'', Timestamp q), (''nonce'', Nonce q)]],
                   Err ErrInvalidSignature)
             else (case Decrypt lib (crypto s) (body_Encrypt encBody) of
                Err e \<Rightarrow>
                  (verify @ [CallDecrypt (body_Encrypt encBody),
                             LogError ''failed to decrypt message''
                               [(''error'', decrypt_error_Error e)]],
                   Err (DecryptMessage e))
              | Panic \<Rightarrow> (verify @ [CallDecrypt (body_Encrypt encBody)], Panic)
              | Ok plaintext \<Rightarrow>
                 (let called = verify @ [CallDecrypt (body_Encrypt encBody)]
                  in case xml_Unmarshal_Message lib plaintext of
                       Inl m \<Rightarrow> (called, Err (UnmarshalMessage m))
                     | Inr msg \<Rightarrow>
                        if MsgType msg \<noteq> MsgTypeText then (called, Ok ())
                        else if \<not> containsMention (Content msg) then (called, Ok ())
                        else (called @ [GoRoutine (forwardToAI s msg)], Ok ())))))"

section \<open>The HTTP handler (CallbackHandler)\<close>

text \<open>
  A request: its method, its query parameters, and what \<^verbatim>\<open>io.ReadAll(r.Body)\<close>
  gives (\<open>Inl m\<close> when reading fails). The handler answers with a status and a body,
  unless it panics: then \<^verbatim>\<open>net/http\<close> drops the connection with no response.
\<close>

record Request =
  Method :: string
  Query :: "(string \<times> string) list"
  Body :: "string + bytes"

datatype response = Response nat string | NoResponse

text \<open>\<^verbatim>\<open>r.URL.Query().Get(key)\<close>: the first value of the key, or the empty string.\<close>

definition Query_Get :: "Request \<Rightarrow> string \<Rightarrow> string" where
  "Query_Get r key = (case map_of (Query r) key of Some v \<Rightarrow> v | None \<Rightarrow> [])"

text \<open>\<^verbatim>\<open>http.Error(w, msg, code)\<close> writes the status and the message with a newline.\<close>

definition http_Error :: "string \<Rightarrow> nat \<Rightarrow> response" where
  "http_Error msg code = Response code (msg @ [CHR 0x0A])"

definition StatusOK :: nat where "StatusOK = 200"
definition StatusBadRequest :: nat where "StatusBadRequest = 400"
definition StatusForbidden :: nat where "StatusForbidden = 403"
definition StatusMethodNotAllowed :: nat where "StatusMethodNotAllowed = 405"
definition StatusInternalServerError :: nat where "StatusInternalServerError = 500"

definition handleVerifyURL :: "'a stdlib_scheme \<Rightarrow> serviceImpl \<Rightarrow> Request \<Rightarrow> event list \<times> response" where
  "handleVerifyURL lib svc r =
     (let q = \<lparr>MsgSignature = Query_Get r ''msg_signature'',
               Timestamp = Query_Get r ''timestamp'',
               Nonce = Query_Get r ''nonce'',
               Echostr = Query_Get r ''echostr''\<rparr>
      in case VerifyURL lib svc q of
           (evs, Err err) \<Rightarrow>
             if errors_Is_ErrInvalidSignature err
             then (evs @ [LogWarn ''URL verification signature failed''
                            [(''timestamp'', Timestamp q), (''nonce'', Nonce q)]],
                   http_Error ''forbidden'' StatusForbidden)
             else (evs @ [LogError ''URL verification failed''
                            [(''error'', service_error_Error err)]],
                   http_Error ''internal server error'' StatusInternalServerError)
         | (evs, Panic) \<Rightarrow> (evs, NoResponse)
         | (evs, Ok plaintext) \<Rightarrow> (evs, Response StatusOK plaintext))"

definition handleCallback :: "'a xml_stdlib_scheme \<Rightarrow> serviceImpl \<Rightarrow> Request \<Rightarrow> event list \<times> response" where
  "handleCallback lib svc r =
     (case Body r of
        Inl m \<Rightarrow>
          ([LogError ''failed to read request body'' [(''error'', m)]],
           http_Error ''internal server error'' StatusInternalServerError)
      | Inr body \<Rightarrow>
         (let q = \<lparr>MsgSignature = Query_Get r ''msg_signature'',
                   Timestamp = Query_Get r ''timestamp'',
                   Nonce = Query_Get r ''nonce'',
                   Echostr = []\<rparr>
          in case HandleCallback lib svc q body of
               (evs, Err err) \<Rightarrow>
                 if strings_Contains (service_error_Error err) ''unmarshal''
                 then (evs @ [LogWarn ''callback XML parse failed''
                                [(''error'', service_error_Error err)]],
                       http_Error ''bad request'' StatusBadRequest)
                 else if errors_Is_ErrInvalidSignature err
                 then (evs @ [LogWarn ''callback signature failed''
                                [(''timestamp'', Timestamp q), (''nonce'', Nonce q)]],
                       http_Error ''forbidden'' StatusForbidden)
                 else (evs @ [LogError ''callback processing failed''
                                [(''error'', service_error_Error err)]],
                       http_Error ''internal server error'' StatusInternalServerError)
             | (evs, Panic) \<Rightarrow> (evs, NoResponse)
             | (evs, Ok u) \<Rightarrow> (evs, Response StatusOK ''success'')))"

definition ServeHTTP :: "'a xml_stdlib_scheme \<Rightarrow> serviceImpl \<Rightarrow> Request \<Rightarrow> event list \<times> response" where
  "ServeHTTP lib svc r =
     (if Method r = ''GET'' then handleVerifyURL lib svc r
      else if Method r = ''POST'' then handleCallback lib svc r
      else ([], http_Error ''method not allowed'' StatusMethodNotAllowed))"

section \<open>A library to run the definitions on\<close>

subsection \<open>Base64, standard alphabet with padding\<close>

text \<open>
  \<^verbatim>\<open>base64.StdEncoding\<close>: three bytes become four characters of the alphabet, a
  last group of one or two bytes is completed with \<open>=\<close>. The decoder skips line breaks,
  as Go's does; on malformed input it reports the position where it stops.
\<close>

definition encodeStd :: string where
  "encodeStd = ''ABCDEFGHIJKLMNOPQRSTUVWXYZabcdefghijklmnopqrstuvwxyz0123456789+/''"

definition encodeChar :: "byte \<Rightarrow> char" where
  "encodeChar v = encodeStd ! unat v"

fun indexOf :: "'a \<Rightarrow> 'a list \<Rightarrow> nat option" where
  "indexOf x [] = None"
| "indexOf x (y # ys) = (if x = y then Some 0 else map_option Suc (indexOf x ys))"

definition decodeChar :: "char \<Rightarrow> byte option" where
  "decodeChar ch = map_option of_nat (indexOf ch encodeStd)"

fun EncodeToString :: "bytes \<Rightarrow> string" where
  "EncodeToString (a # b # c # r) =
     [encodeChar (drop_bit 2 a),
      encodeChar (push_bit 4 (a AND 3) OR drop_bit 4 b),
      encodeChar (push_bit 2 (b AND 15) OR drop_bit 6 c),
      encodeChar (c AND 63)] @ EncodeToString r"
| "EncodeToString [a, b] =
     [encodeChar (drop_bit 2 a),
      encodeChar (push_bit 4 (a AND 3) OR drop_bit 4 b),
      encodeChar (push_bit 2 (b AND 15)),
      CHR ''='']"
| "EncodeToString [a] =
     [encodeChar (drop_bit 2 a), encodeChar (push_bit 4 (a AND 3)), CHR ''='', CHR ''='']"
| "EncodeToString [] = []"

text \<open>One group of four characters; \<open>si\<close> is the position of its first character.\<close>

definition decodeQuantum :: "nat \<Rightarrow> char \<Rightarrow> char \<Rightarrow> char \<Rightarrow> char \<Rightarrow> bool \<Rightarrow> nat + bytes" where
  "decodeQuantum si w x y z final =
     (case decodeChar w of None \<Rightarrow> Inl si | Some s0 \<Rightarrow>
      case decodeChar x of None \<Rightarrow> Inl (si + 1) | Some s1 \<Rightarrow>
        if final \<and> y = CHR ''='' \<and> z = CHR ''=''
        then Inr [push_bit 2 s0 OR drop_bit 4 s1]
        else (case decodeChar y of None \<Rightarrow> Inl (si + 2) | Some s2 \<Rightarrow>
          if final \<and> z = CHR ''=''
          then Inr [push_bit 2 s0 OR drop_bit 4 s1, push_bit 4 s1 OR drop_bit 2 s2]
          else (case decodeChar z of None \<Rightarrow> Inl (si + 3) | Some s3 \<Rightarrow>
            Inr [push_bit 2 s0 OR drop_bit 4 s1, push_bit 4 s1 OR drop_bit 2 s2,
                 push_bit 6 s2 OR s3])))"

fun decodeQuanta :: "nat \<Rightarrow> string \<Rightarrow> nat + bytes" where
  "decodeQuanta si [] = Inr []"
| "decodeQuanta si [w, x, y, z] = decodeQuantum si w x y z True"
| "decodeQuanta si (w # x # y # z # r) =
     (case decodeQuantum si w x y z False of
        Inl n \<Rightarrow> Inl n
      | Inr out \<Rightarrow> (case decodeQuanta (si + 4) r of Inl n \<Rightarrow> Inl n | Inr rest \<Rightarrow> Inr (out @ rest)))"
| "decodeQuanta si s = Inl (si + length s)"

definition DecodeString :: "string \<Rightarrow> nat + bytes" where
  "DecodeString s = decodeQuanta 0 (filter (\<lambda>ch. ch \<noteq> CHR 0x0A \<and> ch \<noteq> CHR 0x0D) s)"

subsection \<open>SHA-1\<close>














subsection \<open>A reader for the flat XML documents of the platform\<close>

text \<open>
  The platform sends one \<^verbatim>\<open><xml>\<close> element whose children hold text or one
  CDATA section. \<open>flat_Unmarshal_EncryptedBody\<close> and \<open>flat_Unmarshal_Message\<close>
  read such documents: a missing child leaves the field at its zero value, as
  \<^verbatim>\<open>xml.Unmarshal\<close> does. They stand for \<^verbatim>\<open>encoding/xml\<close> on these
  documents only.
\<close>

fun dropPrefix :: "string \<Rightarrow> string \<Rightarrow> string option" where
  "dropPrefix [] s = Some s"
| "dropPrefix (p # ps) [] = None"
| "dropPrefix (p # ps) (x # xs) = (if p = x then dropPrefix ps xs else None)"

text \<open>
  \<open>splitAt pat acc s\<close>: the text of \<open>s\<close> before the first occurrence of \<open>pat\<close>
  (after the reversed \<open>acc\<close>), and the text after it.
\<close>

fun splitAt :: "string \<Rightarrow> string \<Rightarrow> string \<Rightarrow> (string \<times> string) option" where
  "splitAt pat acc [] = (if pat = [] then Some (rev acc, []) else None)"
| "splitAt pat acc (x # xs) =
     (case dropPrefix pat (x # xs) of
        Some rest \<Rightarrow> Some (rev acc, rest)
      | None \<Rightarrow> splitAt pat (x # acc) xs)"

definition cdata :: "string \<Rightarrow> string" where
  "cdata txt =
     (case dropPrefix ''<![CDATA['' txt of
        None \<Rightarrow> txt
      | Some r \<Rightarrow> (case splitAt '']]>'' [] r of Some (c, rest) \<Rightarrow> c | None \<Rightarrow> txt))"

definition element :: "string \<Rightarrow> string \<Rightarrow> string option" where
  "element tag s =
     (case splitAt (''<'' @ tag @ ''>'') [] s of
        None \<Rightarrow> None
      | Some (before, rest) \<Rightarrow>
          (case splitAt (''</'' @ tag @ ''>'') [] rest of
             None \<Rightarrow> None
           | Some (txt, after) \<Rightarrow> Some (cdata txt)))"

definition field :: "string \<Rightarrow> string \<Rightarrow> string" where
  "field tag s = (case element tag s of None \<Rightarrow> [] | Some v \<Rightarrow> v)"

fun digits_value :: "int \<Rightarrow> string \<Rightarrow> int option" where
  "digits_value acc [] = Some acc"
| "digits_value acc (c # cs) =
     (if CHR ''0'' \<le> c \<and> c \<le> CHR ''9''
      then digits_value (10 * acc + (of_char c - 48)) cs else None)"

definition flat_Unmarshal_EncryptedBody :: "bytes \<Rightarrow> string + EncryptedBody" where
  "flat_Unmarshal_EncryptedBody body =
     (case element ''xml'' (string_of_bytes body) of
        None \<Rightarrow> Inl ''EOF''
      | Some inner \<Rightarrow>
          Inr \<lparr>body_ToUserName = field ''ToUserName'' inner,
               body_AgentID = field ''AgentID'' inner,
               body_Encrypt = field ''Encrypt'' inner\<rparr>)"

definition flat_Unmarshal_Message :: "bytes \<Rightarrow> string + Message" where
  "flat_Unmarshal_Message body =
     (case element ''xml'' (string_of_bytes body) of
        None \<Rightarrow> Inl ''EOF''
      | Some inner \<Rightarrow>
          (case (digits_value 0 (field ''CreateTime'' inner),
                 digits_value 0 (field ''AgentID'' inner)) of
             (Some t, Some a) \<Rightarrow>
               Inr \<lparr>ToUserName = field ''ToUserName'' inner,
                    FromUserName = field ''FromUserName'' inner,
                    CreateTime = t,
                    MsgType = field ''MsgType'' inner,
                    Content = field ''Content'' inner,
                    MsgID = field ''MsgId'' inner,
                    AgentID = a\<rparr>
           | _ \<Rightarrow> Inl ''strconv.ParseInt: invalid syntax''))"

subsection \<open>Stand-ins for the cipher and the hash\<close>

text \<open>
  \<open>testLib\<close> is the Base64 codec above, the flat XML reader, and two stand-ins that can
  be computed by hand: the block encryption adds the first 16 key bytes to the block
  and the block decryption subtracts them; the hash is the 20-byte XOR checksum of the
  input. \<open>testLib\<close> satisfies what the theorems assume of the library.
\<close>

fun checksum :: "nat \<Rightarrow> bytes \<Rightarrow> bytes \<Rightarrow> bytes" where
  "checksum i acc [] = acc"
| "checksum i acc (x # xs) =
     checksum (if i = 19 then 0 else i + 1) (acc[i := acc ! i XOR x]) xs"

definition testLib :: "xml_stdlib" where
  "testLib =
     \<lparr>base64_DecodeString = DecodeString,
      base64_EncodeToString = EncodeToString,
      aes_Encrypt = (\<lambda>key b. map2 (+) b (take 16 key)),
      aes_Decrypt = (\<lambda>key b. map2 (-) b (take 16 key)),
      sha1_Sum = checksum 0 (replicate 20 0),
      xml_Unmarshal_EncryptedBody = flat_Unmarshal_EncryptedBody,
      xml_Unmarshal_Message = flat_Unmarshal_Message\<rparr>"


subsection \<open>A configuration and requests to run\<close>

text \<open>
  A 32-byte key (the bytes 1 to 32), the token \<open>token\<close>, the tenant
  \<open>wwcorpid0001\<close>, sixteen prefix bytes, and a collaborator that answers every
  request.
\<close>

definition key0 :: bytes where
  "key0 = [1, 2, 3, 4, 5, 6, 7, 8, 9, 10, 11, 12, 13, 14, 15, 16,
           17, 18, 19, 20, 21, 22, 23, 24, 25, 26, 27, 28, 29, 30, 31, 32]"

definition c0 :: cryptoImpl where
  "c0 = \<lparr>token = ''token'', aesKey = key0, corpID = ''wwcorpid0001''\<rparr>"

definition rnd0 :: bytes where
  "rnd0 = [0x10, 0x11, 0x12, 0x13, 0x14, 0x15, 0x16, 0x17,
           0x18, 0x19, 0x1A, 0x1B, 0x1C, 0x1D, 0x1E, 0x1F]"

definition svc0 :: serviceImpl where
  "svc0 = \<lparr>crypto = c0, aiSvc = (\<lambda>req. Inr ''ok'')\<rparr>"

text \<open>
  The handshake: \<open>echostr0\<close> is what Encrypt under \<open>testLib\<close>, \<open>c0\<close> and \<open>rnd0\<close>
  returns for \<open>1234567890\<close>; \<open>get_ok\<close> carries its signature, \<open>get_bad\<close> the same
  signature with the last digit of the nonce changed.
\<close>

definition echostr0 :: string where
  "echostr0 =
     ''EhUUGxYZGCcaHRwjHiEgHxMXFxUsMTIbODU2JzQfZnhxemhpSlsJMxEOOy0/J2+O''"

definition get_ok :: Request where
  "get_ok =
     \<lparr>Method = ''GET'',
      Query = [(''msg_signature'', ''2c7f6c0826303c0d0342687d7a5751227452151d''), (''timestamp'', ''1409659813''),
               (''nonce'', ''1372623149''), (''echostr'', echostr0)],
      Body = Inr []\<rparr>"

definition get_bad :: Request where
  "get_bad =
     \<lparr>Method = ''GET'',
      Query = [(''msg_signature'', ''2c7f6c0826303c0d0342687d7a5751227452151d''), (''timestamp'', ''1409659813''),
               (''nonce'', ''1372623148''), (''echostr'', echostr0)],
      Body = Inr []\<rparr>"

text \<open>
  Deliveries: the encrypted field of each body is what Encrypt returns for the
  message document; the queries carry the signatures.
\<close>

definition msg_hello :: string where
  "msg_hello =
     ''<xml><FromUserName>alice</FromUserName><MsgType>text</MsgType><Content>hello</Content></''
     @ ''xml>''"

definition message_hello :: Message where
  "message_hello =
     \<lparr>ToUserName = [], FromUserName = ''alice'', CreateTime = 0,
      MsgType = ''text'', Content = ''hello'', MsgID = [], AgentID = 0\<rparr>"

definition enc_hello :: string where
  "enc_hello =
     ''EhUUGxYZGCcaHRwjHiEgHxMXF0svZ3xTLStlXX5ahHx3Z1wuRwhJOkpMEURPg9EeGQwMYSeADmMwMzqED/7FWmF+''
     @ ''bGNY630fFSaCA3W4yzoFQlMkPIsQgoRcx3cd4rZlOm8TT1cFfPT5bAZkcp3pa04acyQqexyY0mZBYYOn/H8=''"

definition body_hello :: string where
  "body_hello =
     ''<xml><Encrypt>'' @ enc_hello @ ''</Encrypt></xml>''"

definition envelope_hello :: EncryptedBody where
  "envelope_hello =
     \<lparr>body_ToUserName = [], body_AgentID = [], body_Encrypt = enc_hello\<rparr>"

definition post_hello :: Request where
  "post_hello =
     \<lparr>Method = ''POST'',
      Query = [(''msg_signature'', ''1c5111560a56163a105310301a63126c6d327c6c''), (''timestamp'', ''1409659813''),
               (''nonce'', ''1372623149'')],
      Body = Inr (bytes_of_string body_hello)\<rparr>"

definition msg_mention :: string where
  "msg_mention =
     ''<xml><FromUserName>alice</FromUserName><MsgType>text</MsgType><Content>@assistant please''
     @ '' help</Content></xml>''"

definition message_mention :: Message where
  "message_mention =
     \<lparr>ToUserName = [], FromUserName = ''alice'', CreateTime = 0,
      MsgType = ''text'', Content = ''@assistant please help'', MsgID = [], AgentID = 0\<rparr>"

definition enc_mention :: string where
  "enc_mention =
     ''EhUUGxYZGCcaHRwjHiEgHxMXF3ovZ3xTLStlXX5ahHx3Z1wfRwhJOkpMEURPg9EeGQwMcCeADmMwMzqED/7FWmF+''
     @ ''bFJY630fFSaCA3W4yzoFQlMVPIsQgoRcx08h2cdjdzg1f02xZ/bqR782Dr+xHwgGHUAn5RqbjT2MFi7V64M3c20n''
     @ ''TZ1x+vIXxzIs5PeQ''"

definition body_mention :: string where
  "body_mention =
     ''<xml><Encrypt>'' @ enc_mention @ ''</Encrypt></xml>''"

definition envelope_mention :: EncryptedBody where
  "envelope_mention =
     \<lparr>body_ToUserName = [], body_AgentID = [], body_Encrypt = enc_mention\<rparr>"

definition post_mention :: Request where
  "post_mention =
     \<lparr>Method = ''POST'',
      Query = [(''msg_signature'', ''5d6b09544c0c1d6c043e0811607c6323553d736b''), (''timestamp'', ''1409659813''),
               (''nonce'', ''1372623149'')],
      Body = Inr (bytes_of_string body_mention)\<rparr>"

text \<open>
  A delivery whose encrypted field decrypts to the sixteen prefix bytes, the length 0
  and the tenant field \<open>unmarshal\<close>.
\<close>

definition enc_unmarshal :: string where
  "enc_unmarshal =
     ''EhUUGxYZGCcaHRwjHiEgHxMXFx9ofXxOcXh/Tn8wMiw=''"

definition body_unmarshal :: string where
  "body_unmarshal =
     ''<xml><Encrypt>'' @ enc_unmarshal @ ''</Encrypt></xml>''"

definition envelope_unmarshal :: EncryptedBody where
  "envelope_unmarshal =
     \<lparr>body_ToUserName = [], body_AgentID = [], body_Encrypt = enc_unmarshal\<rparr>"

definition post_unmarshal :: Request where
  "post_unmarshal =
     \<lparr>Method = ''POST'',
      Query = [(''msg_signature'', ''714a5802435d38617b222a1a1b332970253f4c23''), (''timestamp'', ''1409659813''),
               (''nonce'', ''1372623149'')],
      Body = Inr (bytes_of_string body_unmarshal)\<rparr>"

text \<open>
  A ciphertext that decrypts to the prefix bytes, the length field \<open>FF FF FF FF\<close> and
  the tenant.
\<close>

definition enc_wrap :: string where
  "enc_wrap =
     ''EhUUGxYZGCcaHRwjHiEgH+7s7uhmdIJQcXeAUzsfHz7//gH8e2qZSGpxm084HR4+''"

text \<open>
  \<open>echostr0\<close> with the lowest bit of byte 4 of the decoded ciphertext flipped.
\<close>

definition echostr0_flipped :: string where
  "echostr0_flipped =
     ''EhUUGxcZGCcaHRwjHiEgHxMXFxUsMTIbODU2JzQfZnhxemhpSlsJMxEOOy0/J2+O''"







section \<open>Padding validation\<close>

lemma checkPadding_None:
  "checkPadding data p i = None \<longleftrightarrow>
     (\<forall>j. i \<le> j \<and> j < length data \<longrightarrow> data ! j = of_nat p)"
proof (induction data p i rule: checkPadding.induct)
  case (1 data padding i)
  show ?case
  proof (cases "i < length data")
    case False
    then show ?thesis by (auto simp: checkPadding.simps [of data padding i])
  next
    case True
    show ?thesis
    proof (cases "data ! i = of_nat padding")
      case neq: False
      with True show ?thesis
        by (auto simp: checkPadding.simps [of data padding i])
    next
      case eq: True
      have "(\<forall>j. i \<le> j \<and> j < length data \<longrightarrow> data ! j = of_nat padding)
            \<longleftrightarrow> (\<forall>j. Suc i \<le> j \<and> j < length data \<longrightarrow> data ! j = of_nat padding)"
        using eq by (metis Suc_leI le_neq_implies_less Suc_leD)
      with True eq 1 show ?thesis
        by (simp add: checkPadding.simps [of data padding i])
    qed
  qed
qed


section \<open>Bytes, padding and CBC: basic facts\<close>


lemma unat_of_char: "unat (of_char a :: byte) = of_char a"
proof -
  have "unat (of_char a :: byte) = unat (of_nat (of_char a) :: byte)"
    by (simp only: of_nat_of_char)
  also have "\<dots> = (of_char a :: nat) mod 256"
    by (simp add: unat_of_nat)
  finally show ?thesis by simp
qed

lemma of_char_unat: "of_char (char_of (unat (w :: byte))) = w"
proof -
  have "(of_char (char_of (unat w)) :: byte) = of_nat (of_char (char_of (unat w)))"
    by (simp only: of_nat_of_char)
  also have "\<dots> = of_nat (unat w mod 256)"
    by simp
  also have "\<dots> = w"
    using unsigned_less [of w, where 'a = nat] by simp
  finally show ?thesis .
qed

lemma string_of_bytes_of_string [simp]: "string_of_bytes (bytes_of_string s) = s"
  by (induction s) (simp_all add: string_of_bytes_def bytes_of_string_def unat_of_char)

lemma bytes_of_string_of_bytes [simp]: "bytes_of_string (string_of_bytes b) = b"
  by (induction b) (simp_all add: string_of_bytes_def bytes_of_string_def of_char_unat)

lemma length_bytes_of_string [simp]: "length (bytes_of_string s) = length s"
  by (simp add: bytes_of_string_def)



lemma length_xorBytes [simp]: "length (xorBytes a b) = min (length a) (length b)"
  by (simp add: xorBytes_def)





lemma length_PutUint32 [simp]: "length (BigEndian_PutUint32 v) = 4"
  by (simp add: BigEndian_PutUint32_def)

lemma unat_of_nat32: "n < (2::nat) ^ 32 \<Longrightarrow> unat (of_nat n :: uint32) = n"
  by (simp add: unat_of_nat take_bit_nat_eq_self)



section \<open>Sorting and hexadecimal rendering\<close>



lemma siftLeft_mset [simp]: "mset (siftLeft x ys) = add_mset x (mset ys)"
  by (induction ys) auto

lemma siftLeft_set [simp]: "set (siftLeft x ys) = insert x (set ys)"
  by (induction ys) auto









section \<open>Substring tests\<close>

lemma strings_HasPrefix_iff: "strings_HasPrefix s p \<longleftrightarrow> prefix p s"
  by (induction s p rule: strings_HasPrefix.induct) auto

lemma strings_Contains_iff: "strings_Contains s sub \<longleftrightarrow> sublist sub s"
  by (induction s) (auto simp: strings_HasPrefix_iff sublist_Cons_right)

lemma containsMention_iff: "containsMention content \<longleftrightarrow> CHR ''@'' \<in> set content"
  by (induction content) (auto simp: containsMention_def)


section \<open>Base64: decoding inverts encoding\<close>



















section \<open>Decrypt in stages; Decrypt after Encrypt\<close>





lemma Decrypt_stages:
  "Decrypt lib c encrypted =
     (case base64_DecodeString lib encrypted of
        Inl n \<Rightarrow> Err (Base64Decode n)
      | Inr ciphertext \<Rightarrow>
          if length ciphertext = 0 \<or> length ciphertext mod BlockSize \<noteq> 0
          then Err (CiphertextLength (length ciphertext))
          else (case aes_NewCipher (aesKey c) of
             Inl n \<Rightarrow> Err (NewAESCipher n)
           | Inr block \<Rightarrow>
              (case CBCDecrypter_CryptBlocks lib block (take BlockSize (aesKey c)) ciphertext of
                 None \<Rightarrow> Panic
               | Some padded \<Rightarrow>
                  (case pkcs7Unpad padded of
                     Inl e \<Rightarrow> Err (Pkcs7Unpad e)
                   | Inr plaintext \<Rightarrow> parsePlaintext c plaintext))))"
  by (simp add: Decrypt_def parsePlaintext_def split: sum.splits option.splits)




lemma Decrypt_decryptedPlaintext:
  "decryptedPlaintext lib c encrypted = Some plaintext \<Longrightarrow>
     Decrypt lib c encrypted = parsePlaintext c plaintext"
  unfolding Decrypt_stages decryptedPlaintext_def
  by (auto split: sum.splits option.splits if_splits)

lemma word32_wrap:
  fixes msgLen :: uint32
  assumes "0xFFFFFFEC \<le> msgLen"
  shows "unat (20 + msgLen) < 20"
proof -
  have lo: "4294967276 \<le> unat msgLen"
    using assms by (simp add: word_le_nat_alt)
  have up: "unat msgLen < 4294967296"
    using unsigned_less [of msgLen, where 'a = nat] by simp
  have "unat (20 + msgLen) = (20 + unat msgLen) mod 4294967296"
    by (simp add: unat_word_ariths)
  also have "\<dots> = (20 + unat msgLen - 4294967296) mod 4294967296"
    using lo by (intro le_mod_geq) linarith
  also have "\<dots> = 20 + unat msgLen - 4294967296"
    using up by (intro mod_less) linarith
  finally show ?thesis using up by linarith
qed

lemma word32_no_wrap:
  fixes msgLen :: uint32
  assumes "msgLen < 0xFFFFFFEC"
  shows "unat (20 + msgLen) = 20 + unat msgLen"
proof -
  have up: "unat msgLen < 4294967276"
    using assms by (simp add: word_less_nat_alt)
  have "unat (20 + msgLen) = (20 + unat msgLen) mod 4294967296"
    by (simp add: unat_word_ariths)
  also have "\<dots> = 20 + unat msgLen"
    using up by (intro mod_less) linarith
  finally show ?thesis .
qed


lemma parsePlaintext_wrap_panics:
  assumes "20 \<le> length plaintext" "length plaintext < 2 ^ 32"
    and "0xFFFFFFEC \<le> BigEndian_Uint32 (take 4 (drop 16 plaintext))"
  shows "parsePlaintext c plaintext = Panic"
proof -
  define msgLen where "msgLen = BigEndian_Uint32 (take 4 (drop 16 plaintext))"
  have hi: "unat (20 + msgLen) < 20"
    using assms(3) word32_wrap by (simp add: msgLen_def)
  have "unat (of_nat (length plaintext) :: uint32) = length plaintext"
    using assms(2) by (intro unat_of_nat32) simp
  with hi assms(1) have guard: "\<not> (of_nat (length plaintext) :: uint32) < 20 + msgLen"
    by (simp add: word_less_nat_alt)
  show ?thesis
    using assms(1) guard hi
    by (simp add: parsePlaintext_def msgLen_def [symmetric] Let_def slice_def)
qed

lemma parsePlaintext_length_check:
  assumes "20 \<le> length plaintext" "length plaintext < 2 ^ 32"
    and "BigEndian_Uint32 (take 4 (drop 16 plaintext)) < 0xFFFFFFEC"
  shows "(\<exists>L n. parsePlaintext c plaintext = Err (InvalidMsgLength L n))
         \<longleftrightarrow> length plaintext < 20 + unat (BigEndian_Uint32 (take 4 (drop 16 plaintext)))"
proof -
  define msgLen where "msgLen = BigEndian_Uint32 (take 4 (drop 16 plaintext))"
  have hi: "unat (20 + msgLen) = 20 + unat msgLen"
    using assms(3) word32_no_wrap by (simp add: msgLen_def)
  have "unat (of_nat (length plaintext) :: uint32) = length plaintext"
    using assms(2) by (intro unat_of_nat32) simp
  then have guard: "(of_nat (length plaintext) :: uint32) < 20 + msgLen
                    \<longleftrightarrow> length plaintext < 20 + unat msgLen"
    using hi by (simp add: word_less_nat_alt)
  show ?thesis
    using assms(1) guard hi
    by (auto simp: parsePlaintext_def msgLen_def [symmetric] Let_def slice_def)
qed








section \<open>SHA-1 and the hexadecimal renderings, evaluated\<close>

















section \<open>Running the requests\<close>

lemma delivery_run:
  assumes "Method r = ''POST''" "Body r = Inr body"
    and "xml_Unmarshal_EncryptedBody lib body = Inr encBody"
    and "VerifySignature lib (crypto svc) (Query_Get r ''msg_signature'')
           (Query_Get r ''timestamp'') (Query_Get r ''nonce'') (body_Encrypt encBody)"
  shows "ServeHTTP lib svc r =
    (let called = [CallVerifySignature (Query_Get r ''msg_signature'') (Query_Get r ''timestamp'')
                     (Query_Get r ''nonce'') (body_Encrypt encBody),
                   CallDecrypt (body_Encrypt encBody)]
     in case Decrypt lib (crypto svc) (body_Encrypt encBody) of
          Panic \<Rightarrow> (called, NoResponse)
        | Err e \<Rightarrow>
            (called @ [LogError ''failed to decrypt message'' [(''error'', decrypt_error_Error e)],
                       if strings_Contains (''decrypt message: '' @ decrypt_error_Error e) ''unmarshal''
                       then LogWarn ''callback XML parse failed''
                              [(''error'', ''decrypt message: '' @ decrypt_error_Error e)]
                       else LogError ''callback processing failed''
                              [(''error'', ''decrypt message: '' @ decrypt_error_Error e)]],
             if strings_Contains (''decrypt message: '' @ decrypt_error_Error e) ''unmarshal''
             then Response 400 (''bad request'' @ [CHR 0x0A])
             else Response 500 (''internal server error'' @ [CHR 0x0A]))
        | Ok plaintext \<Rightarrow>
            (case xml_Unmarshal_Message lib plaintext of
               Inl m \<Rightarrow>
                 (called @ [LogWarn ''callback XML parse failed''
                             [(''error'', ''unmarshal message: '' @ m)]],
                  Response 400 (''bad request'' @ [CHR 0x0A]))
             | Inr msg \<Rightarrow>
                 if MsgType msg = ''text'' \<and> CHR ''@'' \<in> set (Content msg)
                 then (called @ [GoRoutine (forwardToAI svc msg)], Response 200 ''success'')
                 else (called, Response 200 ''success'')))"
proof -
  have u: "strings_Contains (''unmarshal message: '' @ m) ''unmarshal''" for m
    by simp
  show ?thesis
    using assms
    by (auto simp: ServeHTTP_def handleCallback_def HandleCallback_def Let_def MsgTypeText_def
        containsMention_iff StatusOK_def StatusBadRequest_def StatusInternalServerError_def
        http_Error_def errors_Is_ErrInvalidSignature_def u
        split: result.splits sum.splits)
qed

lemma run_hello:
  "Method post_hello = ''POST''"
  "Body post_hello = Inr (bytes_of_string body_hello)"
  "xml_Unmarshal_EncryptedBody testLib (bytes_of_string body_hello) = Inr envelope_hello"
  "VerifySignature testLib (crypto svc0) (Query_Get post_hello ''msg_signature'')
     (Query_Get post_hello ''timestamp'') (Query_Get post_hello ''nonce'')
     (body_Encrypt envelope_hello)"
  "Decrypt testLib (crypto svc0) (body_Encrypt envelope_hello) = Ok (bytes_of_string msg_hello)"
  "xml_Unmarshal_Message testLib (bytes_of_string msg_hello) = Inr message_hello"
proof -
  show "Method post_hello = ''POST''"
    and "Body post_hello = Inr (bytes_of_string body_hello)"
    by (simp_all add: post_hello_def)
  show "xml_Unmarshal_EncryptedBody testLib (bytes_of_string body_hello) = Inr envelope_hello"
    by (simp add: testLib_def flat_Unmarshal_EncryptedBody_def element_def field_def cdata_def
          body_hello_def envelope_hello_def enc_hello_def)
  show "VerifySignature testLib (crypto svc0) (Query_Get post_hello ''msg_signature'')
     (Query_Get post_hello ''timestamp'') (Query_Get post_hello ''nonce'')
     (body_Encrypt envelope_hello)"
    by code_simp
  show "Decrypt testLib (crypto svc0) (body_Encrypt envelope_hello)
          = Ok (bytes_of_string msg_hello)"
    by code_simp
  show "xml_Unmarshal_Message testLib (bytes_of_string msg_hello) = Inr message_hello"
    by (simp add: testLib_def flat_Unmarshal_Message_def element_def field_def cdata_def
          msg_hello_def message_hello_def)
qed

lemma run_mention:
  "Method post_mention = ''POST''"
  "Body post_mention = Inr (bytes_of_string body_mention)"
  "xml_Unmarshal_EncryptedBody testLib (bytes_of_string body_mention) = Inr envelope_mention"
  "VerifySignature testLib (crypto svc0) (Query_Get post_mention ''msg_signature'')
     (Query_Get post_mention ''timestamp'') (Query_Get post_mention ''nonce'')
     (body_Encrypt envelope_mention)"
  "Decrypt testLib (crypto svc0) (body_Encrypt envelope_mention) = Ok (bytes_of_string msg_mention)"
  "xml_Unmarshal_Message testLib (bytes_of_string msg_mention) = Inr message_mention"
proof -
  show "Method post_mention = ''POST''"
    and "Body post_mention = Inr (bytes_of_string body_mention)"
    by (simp_all add: post_mention_def)
  show "xml_Unmarshal_EncryptedBody testLib (bytes_of_string body_mention) = Inr envelope_mention"
    by (simp add: testLib_def flat_Unmarshal_EncryptedBody_def element_def field_def cdata_def
          body_mention_def envelope_mention_def enc_mention_def)
  show "VerifySignature testLib (crypto svc0) (Query_Get post_mention ''msg_signature'')
     (Query_Get post_mention ''timestamp'') (Query_Get post_mention ''nonce'')
     (body_Encrypt envelope_mention)"
    by code_simp
  show "Decrypt testLib (crypto svc0) (body_Encrypt envelope_mention)
          = Ok (bytes_of_string msg_mention)"
    by code_simp
  show "xml_Unmarshal_Message testLib (bytes_of_string msg_mention) = Inr message_mention"
    by (simp add: testLib_def flat_Unmarshal_Message_def element_def field_def cdata_def
          msg_mention_def message_mention_def)
qed

lemma run_unmarshal:
  "Method post_unmarshal = ''POST''"
  "Body post_unmarshal = Inr (bytes_of_string body_unmarshal)"
  "xml_Unmarshal_EncryptedBody testLib (bytes_of_string body_unmarshal) = Inr envelope_unmarshal"
  "VerifySignature testLib (crypto svc0) (Query_Get post_unmarshal ''msg_signature'')
     (Query_Get post_unmarshal ''timestamp'') (Query_Get post_unmarshal ''nonce'')
     (body_Encrypt envelope_unmarshal)"
  "Decrypt testLib (crypto svc0) (body_Encrypt envelope_unmarshal)
     = Err (CorpIDMismatch ''unmarshal'' ''wwcorpid0001'')"
proof -
  show "Method post_unmarshal = ''POST''"
    and "Body post_unmarshal = Inr (bytes_of_string body_unmarshal)"
    by (simp_all add: post_unmarshal_def)
  show "xml_Unmarshal_EncryptedBody testLib (bytes_of_string body_unmarshal)
          = Inr envelope_unmarshal"
    by (simp add: testLib_def flat_Unmarshal_EncryptedBody_def element_def field_def cdata_def
          body_unmarshal_def envelope_unmarshal_def enc_unmarshal_def)
  show "VerifySignature testLib (crypto svc0) (Query_Get post_unmarshal ''msg_signature'')
     (Query_Get post_unmarshal ''timestamp'') (Query_Get post_unmarshal ''nonce'')
     (body_Encrypt envelope_unmarshal)"
    by code_simp
  show "Decrypt testLib (crypto svc0) (body_Encrypt envelope_unmarshal)
     = Err (CorpIDMismatch ''unmarshal'' ''wwcorpid0001'')"
    by code_simp
qed

lemma aiSvc_svc0: "aiSvc svc0 req = Inr ''ok''"
  by (simp add: svc0_def)

section \<open>Claim C1: round trip\<close>




section \<open>Claim C3: the length check\<close>

text \<open>
  Claim C3 fails on the code. The sum \<^verbatim>\<open>20+msgLen\<close> is a \<^verbatim>\<open>uint32\<close>: for a length
  field of \<open>FF FF FF EC\<close> or more it wraps to a value below 20, the check
  \<^verbatim>\<open>uint32(len(plaintext)) < 20+msgLen\<close> passes, and the slice expression
  \<^verbatim>\<open>plaintext[20 : 20+msgLen]\<close> panics. For every input whose decoding, CBC decryption
  and unpadding succeed and leave at least 20 (and fewer than \<open>2 ^ 32\<close>) bytes with such
  a length field, where \<open>20 + L\<close> exceeds the plaintext length, Decrypt returns no
  length-mismatch error: it panics.
\<close>

theorem Decrypt_length_wrap_panics:
  assumes "decryptedPlaintext lib c encrypted = Some plaintext"
    and "20 \<le> length plaintext" "length plaintext < 2 ^ 32"
    and "0xFFFFFFEC \<le> BigEndian_Uint32 (take 4 (drop 16 plaintext))"
  shows "length plaintext < 20 + unat (BigEndian_Uint32 (take 4 (drop 16 plaintext)))
         \<and> Decrypt lib c encrypted = Panic"
proof -
  have "4294967276 \<le> unat (BigEndian_Uint32 (take 4 (drop 16 plaintext)))"
    using assms(4) by (simp add: word_le_nat_alt)
  with assms(3) have "length plaintext < 20 + unat (BigEndian_Uint32 (take 4 (drop 16 plaintext)))"
    by simp
  then show ?thesis
    using Decrypt_decryptedPlaintext [OF assms(1)] parsePlaintext_wrap_panics [OF assms(2-4)]
    by simp
qed

theorem Decrypt_length_wrap_panics_witness:
  "decryptedPlaintext testLib c0 enc_wrap
     = Some (rnd0 @ [0xFF, 0xFF, 0xFF, 0xFF] @ bytes_of_string ''wwcorpid0001'')
   \<and> Decrypt testLib c0 enc_wrap = Panic"
proof -
  have p: "decryptedPlaintext testLib c0 enc_wrap
             = Some (rnd0 @ [0xFF, 0xFF, 0xFF, 0xFF] @ bytes_of_string ''wwcorpid0001'')"
    by code_simp
  have f: "BigEndian_Uint32 (take 4 (drop 16
              (rnd0 @ [0xFF, 0xFF, 0xFF, 0xFF] @ bytes_of_string ''wwcorpid0001''))) = 0xFFFFFFFF"
    by (simp add: rnd0_def BigEndian_Uint32_def)
  have l: "length (rnd0 @ [0xFF, 0xFF, 0xFF, 0xFF] @ bytes_of_string ''wwcorpid0001'') = 32"
    by (simp add: rnd0_def)
  show ?thesis
    using Decrypt_length_wrap_panics [OF p] p
    by (simp only: f l) simp
qed

section \<open>Claim C4: VerifySignature is the reference algorithm\<close>




section \<open>Claim C5: the status of a delivery that fails to decrypt\<close>

text \<open>
  Claim C5 fails on the code. The handler answers 400 whenever the message of the error
  contains \<open>unmarshal\<close>, and the message of the tenant-mismatch error of Decrypt holds
  the tenant field of the decrypted plaintext: the delivery \<open>post_unmarshal\<close> parses,
  its signature verifies, its decryption fails, and the response is 400, not 500.
\<close>

theorem decrypt_failure_answered_400:
  "snd (ServeHTTP testLib svc0 post_unmarshal) = Response 400 (''bad request'' @ [CHR 0x0A])"
  unfolding delivery_run [OF run_unmarshal(1-4)]
  by (simp add: run_unmarshal(5) Let_def)

section \<open>Claim C6: padding validation\<close>

text \<open>
  Claim C6. For every buffer, pkcs7Unpad returns a padding error whenever the buffer is
  empty or its last byte \<open>p\<close> is 0, or greater than 16, or greater than the buffer
  length, or one of the last \<open>p\<close> bytes differs from \<open>p\<close>; in every other case it
  returns the buffer without its last \<open>p\<close> bytes.
\<close>

theorem pkcs7Unpad_validation:
  fixes data :: bytes
  defines "p \<equiv> unat (last data)"
  shows "(data = [] \<or> p = 0 \<or> p > 16 \<or> p > length data
            \<or> (\<exists>i. length data - p \<le> i \<and> i < length data \<and> data ! i \<noteq> last data)
          \<longrightarrow> (\<exists>e. pkcs7Unpad data = Inl e))
       \<and> (\<not> (data = [] \<or> p = 0 \<or> p > 16 \<or> p > length data
            \<or> (\<exists>i. length data - p \<le> i \<and> i < length data \<and> data ! i \<noteq> last data))
          \<longrightarrow> pkcs7Unpad data = Inr (take (length data - p) data))"
proof (cases "data = []")
  case True
  then show ?thesis by (simp add: pkcs7Unpad_def)
next
  case ne: False
  then have l: "data ! (length data - 1) = last data"
    by (simp add: last_conv_nth)
  have w: "of_nat p = last data"
    by (simp add: p_def)
  show ?thesis
    using ne l w checkPadding_None [of data p "length data - p"]
    by (auto simp: pkcs7Unpad_def Let_def BlockSize_def p_def split: option.splits)
qed

theorem pkcs7Unpad_validation_witness:
  "pkcs7Unpad [1, 2, 3, 3, 3] = Inr [1, 2]
   \<and> (\<exists>e. pkcs7Unpad [1, 2, 3, 2, 3] = Inl e)
   \<and> (\<exists>e. pkcs7Unpad [7, 7, 0] = Inl e)
   \<and> (\<exists>e. pkcs7Unpad [7, 7, 17] = Inl e)
   \<and> (\<exists>e. pkcs7Unpad [3, 3] = Inl e)"
proof -
  have bad: "\<exists>i\<ge>length [1, 2, 3, 2, 3 :: byte] - unat (last [1, 2, 3, 2, 3 :: byte]).
               i < length [1, 2, 3, 2, 3 :: byte]
               \<and> [1, 2, 3, 2, 3 :: byte] ! i \<noteq> last [1, 2, 3, 2, 3 :: byte]"
    by (rule exI [of _ 3]) simp
  have "[1, 2, 3, 3, 3 :: byte] ! i = 3" if "2 \<le> i" "i < 5" for i
  proof -
    from that have "i = 2 \<or> i = 3 \<or> i = 4" by arith
    then show ?thesis by auto
  qed
  then have ok: "\<not> (\<exists>i\<ge>length [1, 2, 3, 3, 3 :: byte] - unat (last [1, 2, 3, 3, 3 :: byte]).
               i < length [1, 2, 3, 3, 3 :: byte]
               \<and> [1, 2, 3, 3, 3 :: byte] ! i \<noteq> last [1, 2, 3, 3, 3 :: byte])"
    by simp
  show ?thesis
    using pkcs7Unpad_validation [of "[1, 2, 3, 3, 3]"] ok
          pkcs7Unpad_validation [of "[1, 2, 3, 2, 3]"] bad
          pkcs7Unpad_validation [of "[7, 7, 0]"]
          pkcs7Unpad_validation [of "[7, 7, 17]"]
          pkcs7Unpad_validation [of "[3, 3]"]
    by simp
qed

section \<open>Claim C7: the handshake checks the signature before it decrypts\<close>

text \<open>
  Claim C7. For every GET request, if the signature over the timestamp, the nonce and the
  echostr does not verify, the response is 403 and Decrypt is not called; and whenever
  Decrypt is called, the signature has verified and the call of VerifySignature comes
  immediately before it.
\<close>

theorem handshake_signature_gate:
  assumes get: "Method r = ''GET''"
    and run: "ServeHTTP lib svc r = (evs, resp)"
  defines "verified \<equiv> VerifySignature lib (crypto svc) (Query_Get r ''msg_signature'')
             (Query_Get r ''timestamp'') (Query_Get r ''nonce'') (Query_Get r ''echostr'')"
  shows "(\<not> verified \<longrightarrow>
            resp = Response 403 (''forbidden'' @ [CHR 0x0A]) \<and> (\<forall>e. CallDecrypt e \<notin> set evs))
       \<and> (\<forall>e. CallDecrypt e \<in> set evs \<longrightarrow>
            verified \<and> (\<exists>a b c d post. evs = CallVerifySignature a b c d # CallDecrypt e # post))"
  using get run unfolding verified_def
  by (auto simp: ServeHTTP_def handleVerifyURL_def VerifyURL_def Let_def http_Error_def
        StatusForbidden_def errors_Is_ErrInvalidSignature_def
        split: result.splits if_splits prod.splits)

theorem handshake_signature_gate_witness:
  "snd (ServeHTTP testLib svc0 get_bad) = Response 403 (''forbidden'' @ [CHR 0x0A])
   \<and> (\<forall>e. CallDecrypt e \<notin> set (fst (ServeHTTP testLib svc0 get_bad)))
   \<and> CallDecrypt echostr0 \<in> set (fst (ServeHTTP testLib svc0 get_ok))
   \<and> VerifySignature testLib c0 (Query_Get get_ok ''msg_signature'')
         (Query_Get get_ok ''timestamp'') (Query_Get get_ok ''nonce'') (Query_Get get_ok ''echostr'')"
proof -
  have bad: "\<not> VerifySignature testLib (crypto svc0) (Query_Get get_bad ''msg_signature'')
               (Query_Get get_bad ''timestamp'') (Query_Get get_bad ''nonce'')
               (Query_Get get_bad ''echostr'')"
    by code_simp
  have dec: "CallDecrypt echostr0 \<in> set (fst (ServeHTTP testLib svc0 get_ok))"
    by code_simp
  have m: "Method get_bad = ''GET''" "Method get_ok = ''GET''"
    by (simp_all add: get_bad_def get_ok_def)
  have c: "crypto svc0 = c0" by (simp add: svc0_def)
  show ?thesis
    using handshake_signature_gate [OF m(1) surjective_pairing, of testLib svc0] bad
      handshake_signature_gate [OF m(2) surjective_pairing, of testLib svc0] dec
    by (simp add: c)
qed

section \<open>Claim C8: what the errors of Decrypt carry\<close>




section \<open>Claim C9: messages that are not forwarded\<close>

text \<open>
  Claim C9. For every POST request whose body parses as an envelope, whose signature
  verifies, whose encrypted field decrypts and whose plaintext parses as a message: if
  the message type is not \<open>text\<close> or the content holds no \<open>@\<close>, the response is 200
  with body \<open>success\<close>, no goroutine is started and no request reaches the AI
  collaborator; and a request reaches the collaborator only when the type is \<open>text\<close>
  and the content holds an \<open>@\<close>.
\<close>

theorem ignored_message_branch:
  assumes post: "Method r = ''POST''" "Body r = Inr body"
    and envelope: "xml_Unmarshal_EncryptedBody lib body = Inr encBody"
    and verified: "VerifySignature lib (crypto svc) (Query_Get r ''msg_signature'')
                     (Query_Get r ''timestamp'') (Query_Get r ''nonce'') (body_Encrypt encBody)"
    and decrypted: "Decrypt lib (crypto svc) (body_Encrypt encBody) = Ok plaintext"
    and message: "xml_Unmarshal_Message lib plaintext = Inr msg"
    and run: "ServeHTTP lib svc r = (evs, resp)"
  shows "(MsgType msg \<noteq> ''text'' \<or> CHR ''@'' \<notin> set (Content msg) \<longrightarrow>
            resp = Response 200 ''success'' \<and> forwarded evs = [] \<and> (\<forall>g. GoRoutine g \<notin> set evs))
       \<and> (forwarded evs \<noteq> [] \<longrightarrow> MsgType msg = ''text'' \<and> CHR ''@'' \<in> set (Content msg))"
  using run unfolding delivery_run [OF post envelope verified]
  by (auto simp: decrypted message forwarded_def Let_def split: if_splits)

theorem ignored_message_branch_witness:
  "snd (ServeHTTP testLib svc0 post_hello) = Response 200 ''success''
   \<and> forwarded (fst (ServeHTTP testLib svc0 post_hello)) = []
   \<and> Content message_hello = ''hello''
   \<and> forwarded (fst (ServeHTTP testLib svc0 post_mention)) \<noteq> []
   \<and> MsgType message_mention = ''text'' \<and> CHR ''@'' \<in> set (Content message_mention)"
proof -
  have sent: "forwarded (fst (ServeHTTP testLib svc0 post_mention)) \<noteq> []"
    unfolding delivery_run [OF run_mention(1-4)]
    by (simp add: run_mention(5,6) message_mention_def forwarded_def forwardToAI_def Let_def
          aiSvc_svc0)
  show ?thesis
    using ignored_message_branch [OF run_hello surjective_pairing]
      ignored_message_branch [OF run_mention surjective_pairing] sent
    by (simp add: message_hello_def)
qed


section \<open>Claim C10: the request handed to the AI collaborator\<close>

text \<open>
  Claim C10. Every request that reaches the AI collaborator, whatever the HTTP request,
  has the source \<open>wework\<close> and an empty group identifier, and its user identifier and
  content are the sender and the content of the message parsed from the decrypted body.
\<close>

theorem forward_request_fields:
  assumes run: "ServeHTTP lib svc r = (evs, resp)"
    and sent: "req \<in> set (forwarded evs)"
  shows "Source req = ''wework'' \<and> GroupID req = []
       \<and> (\<exists>body encBody plaintext msg.
             Body r = Inr body
           \<and> xml_Unmarshal_EncryptedBody lib body = Inr encBody
           \<and> Decrypt lib (crypto svc) (body_Encrypt encBody) = Ok plaintext
           \<and> xml_Unmarshal_Message lib plaintext = Inr msg
           \<and> UserID req = FromUserName msg \<and> req_Content req = Content msg)"
proof (cases "Method r = ''POST''")
  case False
  with assms show ?thesis
    by (auto simp: ServeHTTP_def handleVerifyURL_def VerifyURL_def Let_def forwarded_def
          split: if_splits result.splits prod.splits)
next
  case True
  with assms show ?thesis
    by (auto simp: ServeHTTP_def handleCallback_def HandleCallback_def Let_def forwarded_def
          forwardToAI_def
          split: if_splits result.splits prod.splits sum.splits)
qed

theorem forward_request_fields_witness:
  "forwarded (fst (ServeHTTP testLib svc0 post_mention))
     = [\<lparr>UserID = ''alice'', req_Content = ''@assistant please help'',
         Source = ''wework'', GroupID = []\<rparr>]
   \<and> FromUserName message_mention = ''alice''
   \<and> Content message_mention = ''@assistant please help''"
proof -
  define req where "req = \<lparr>UserID = ''alice'', req_Content = ''@assistant please help'',
         Source = ''wework'', GroupID = []\<rparr>"
  have sent: "forwarded (fst (ServeHTTP testLib svc0 post_mention)) = [req]"
    unfolding delivery_run [OF run_mention(1-4)]
    by (simp add: run_mention(5,6) message_mention_def forwarded_def forwardToAI_def Let_def
          aiSvc_svc0 req_def)
  then have "req \<in> set (forwarded (fst (ServeHTTP testLib svc0 post_mention)))"
    by simp
  from forward_request_fields [OF surjective_pairing this] sent
  show ?thesis
    by (simp add: req_def message_mention_def)
qed


end
